theory Spec2Isabelle
  imports Main
begin

text \<open>
  A shallow embedding of the publication scheduler (\<^verbatim>\<open>schu.py\<close>) and of the text utilities
  (\<^verbatim>\<open>utils.py\<close>). A Python \<^verbatim>\<open>str\<close> is a \<^typ>\<open>string\<close>: a list of characters with code
  points below 256. Collaborators outside the repository (the bot API, the upstream reader,
  the clock, the random generator, the hash library) are inputs of the model.
\<close>

section \<open>Link stripping (\<^verbatim>\<open>utils.clean_telegram_links\<close>)\<close>




definition is_space :: "char \<Rightarrow> bool" where
  "is_space c = (let n = (of_char c :: nat) in
     (9 \<le> n \<and> n \<le> 13) \<or> (28 \<le> n \<and> n \<le> 32) \<or> n = 133 \<or> n = 160)"
















section \<open>Tenant store\<close>

text \<open>
  A naive \<^verbatim>\<open>datetime\<close> is a count of microseconds from a midnight. The ISO texts the store
  keeps compare like the instants they denote, so a stored instant is the count itself; a
  stored text that \<^verbatim>\<open>datetime.fromisoformat\<close> rejects is \<open>None\<close>.
\<close>

type_synonym time = int

definition us_per_second :: int where "us_per_second = 1000000"
definition us_per_minute :: int where "us_per_minute = 60000000"
definition us_per_day :: int where "us_per_day = 86400000000"

text \<open>\<^verbatim>\<open>now.replace(hour=0, minute=0, second=0, microsecond=0)\<close> and
  \<^verbatim>\<open>now.replace(hour=23, minute=59, second=59, microsecond=999999)\<close>.\<close>

definition today_start :: "time \<Rightarrow> time" where
  "today_start t = t - t mod us_per_day"

definition day_end :: "time \<Rightarrow> time" where
  "day_end t = today_start t + us_per_day - 1"

text \<open>A row of \<^verbatim>\<open>published_dedup\<close>: channel id, fingerprint, published_at.\<close>

record dedup_row =
  d_channel :: int
  d_fingerprint :: string
  d_published_at :: time

text \<open>
  A row of \<^verbatim>\<open>posts\<close> (a slot), with the columns the scheduler reads or writes.
  \<open>p_donors\<close> is \<^verbatim>\<open>safe_json_loads(donor_channels_json, [])\<close>.
\<close>

record post =
  p_id :: int
  p_channel :: int
  p_content_type :: string
  p_content :: "string option"
  p_media_id :: "string option"
  p_scheduled :: "time option"
  p_published :: int
  p_last_post_time :: "time option"
  p_stream :: "int option"
  p_donors :: "string list"

text \<open>A row of \<^verbatim>\<open>random_posts\<close> (a random stream).\<close>

record random_stream =
  rs_id :: int
  rs_donors :: "string list"
  rs_targets :: "int list"
  rs_posts_per_day :: int
  rs_active :: bool
  rs_last_post_time :: "time option"
  rs_next_times :: "time list"

text \<open>A row of \<^verbatim>\<open>repost_streams\<close>; \<open>None\<close> is a NULL \<^verbatim>\<open>last_message_id\<close>.\<close>

record repost_stream =
  rp_id :: int
  rp_targets :: "int list"
  rp_last_message_id :: "int option"
  rp_active :: bool

text \<open>
  One tenant's store as a connection sees it. \<open>published_dedup = None\<close> is a store whose
  \<^verbatim>\<open>published_dedup\<close> table does not exist: every statement on it raises.
\<close>

record store =
  posts :: "post list"
  published_dedup :: "dedup_row list option"
  random_posts :: "random_stream list"
  repost_streams :: "repost_stream list"

subsection \<open>Statements on \<^verbatim>\<open>posts\<close>\<close>

text \<open>
  \<^verbatim>\<open>UPDATE posts SET is_published = -1 WHERE id = ? AND is_published = 0\<close> with the
  \<^verbatim>\<open>changes()\<close> it leaves.
\<close>

definition sql_reserve_slot :: "post list \<Rightarrow> int \<Rightarrow> nat \<times> post list" where
  "sql_reserve_slot ps i =
     (length (filter (\<lambda>p. p_id p = i \<and> p_published p = 0) ps),
      map (\<lambda>p. if p_id p = i \<and> p_published p = 0 then p\<lparr>p_published := - 1\<rparr> else p) ps)"

text \<open>\<^verbatim>\<open>UPDATE posts SET is_published = 0 WHERE id = ? AND is_published = -1\<close>\<close>

definition sql_release_slot :: "post list \<Rightarrow> int \<Rightarrow> post list" where
  "sql_release_slot ps i =
     map (\<lambda>p. if p_id p = i \<and> p_published p = - 1 then p\<lparr>p_published := 0\<rparr> else p) ps"

text \<open>\<^verbatim>\<open>UPDATE posts SET is_published = 1, last_post_time = ? WHERE id = ?\<close>\<close>

definition sql_commit_slot :: "post list \<Rightarrow> int \<Rightarrow> time \<Rightarrow> post list" where
  "sql_commit_slot ps i t =
     map (\<lambda>p. if p_id p = i then p\<lparr>p_published := 1, p_last_post_time := Some t\<rparr> else p) ps"

text \<open>The \<^verbatim>\<open>is_published\<close> of the slot with a given id, if there is one.\<close>

definition slot_state :: "post list \<Rightarrow> int \<Rightarrow> int option" where
  "slot_state ps i = map_option p_published (find (\<lambda>p. p_id p = i) ps)"

subsection \<open>Statements on \<^verbatim>\<open>published_dedup\<close>\<close>

definition dedup_present :: "dedup_row list \<Rightarrow> int \<Rightarrow> string \<Rightarrow> bool" where
  "dedup_present tbl ch fp = list_ex (\<lambda>r. d_channel r = ch \<and> d_fingerprint r = fp) tbl"

text \<open>
  \<^verbatim>\<open>INSERT OR IGNORE INTO published_dedup(channel_id, fingerprint, published_at)\<close> under the
  unique index on \<^verbatim>\<open>(channel_id, fingerprint)\<close>: the rows changed and the new table.
\<close>

definition insert_or_ignore :: "dedup_row list \<Rightarrow> int \<Rightarrow> string \<Rightarrow> time \<Rightarrow> nat \<times> dedup_row list" where
  "insert_or_ignore tbl ch fp t =
     (if dedup_present tbl ch fp then (0, tbl)
      else (1, tbl @ [\<lparr>d_channel = ch, d_fingerprint = fp, d_published_at = t\<rparr>]))"

text \<open>\<^verbatim>\<open>DELETE FROM published_dedup WHERE channel_id = ? AND fingerprint = ?\<close>\<close>

definition delete_dedup :: "dedup_row list \<Rightarrow> int \<Rightarrow> string \<Rightarrow> dedup_row list" where
  "delete_dedup tbl ch fp = filter (\<lambda>r. \<not> (d_channel r = ch \<and> d_fingerprint r = fp)) tbl"

text \<open>
  The awaited storage calls inside \<^verbatim>\<open>_reserve_dedup\<close>, in program order. A fault names the
  call that raises.
\<close>

datatype fault = FaultInsert | FaultChanges | FaultFetchone | FaultCommit

text \<open>
  \<^verbatim>\<open>_reserve_dedup\<close>. Whatever raises inside the \<^verbatim>\<open>try\<close> block (the missing table, or the
  fault), the \<^verbatim>\<open>except\<close> branch returns \<^verbatim>\<open>True\<close>. A fault behind the INSERT leaves the
  inserted row in the connection's view.
\<close>

definition reserve_dedup ::
  "fault option \<Rightarrow> dedup_row list option \<Rightarrow> int \<Rightarrow> string \<Rightarrow> time \<Rightarrow> bool \<times> dedup_row list option" where
  "reserve_dedup flt dd ch fp t =
     (case dd of
        None \<Rightarrow> (True, None)
      | Some tbl \<Rightarrow>
          (if flt = Some FaultInsert then (True, Some tbl)
           else
             (let (changes, tbl') = insert_or_ignore tbl ch fp t in
              (case flt of
                 Some _ \<Rightarrow> (True, Some tbl')
               | None \<Rightarrow> (changes > 0, Some tbl')))))"

section \<open>Fingerprints (\<^verbatim>\<open>_make_post_fingerprint\<close>)\<close>

text \<open>
  The media of a candidate: bytes, an in-memory buffer, a \<^verbatim>\<open>str\<close> (a path, with the file's
  content when the path exists and can be read), or any other object.
\<close>

datatype media = Bytes "nat list" | BytesIO "nat list" | Path string "nat list option" | OtherMedia

record post_data =
  pd_type :: "string option"
  pd_text :: "string option"
  pd_media :: "media option"
  pd_caption :: "string option"

text \<open>\<^verbatim>\<open>x or ''\<close>, \<^verbatim>\<open>str.strip()\<close>, the f-string of a value that may be \<^verbatim>\<open>None\<close>, and
  \<^verbatim>\<open>str.encode('utf-8')\<close> on code points below 256.\<close>

definition or_empty :: "string option \<Rightarrow> string" where
  "or_empty v = (case v of None \<Rightarrow> [] | Some s \<Rightarrow> s)"

definition py_strip :: "string \<Rightarrow> string" where
  "py_strip s = rev (dropWhile is_space (rev (dropWhile is_space s)))"

definition py_format :: "string option \<Rightarrow> string" where
  "py_format v = (case v of None \<Rightarrow> ''None'' | Some s \<Rightarrow> s)"

definition encode_utf8 :: "string \<Rightarrow> nat list" where
  "encode_utf8 s = concat (map (\<lambda>c. let n = (of_char c :: nat) in
     if n < 128 then [n] else [192 + n div 64, 128 + n mod 64]) s)"

text \<open>
  \<open>H\<close> is \<^verbatim>\<open>hashlib.sha256(b).hexdigest()\<close>, a function of the hash library. Only bytes, a
  buffer and a readable path contribute a media hash.
\<close>

definition media_bytes :: "media \<Rightarrow> nat list option" where
  "media_bytes m = (case m of Bytes b \<Rightarrow> Some b | BytesIO b \<Rightarrow> Some b | Path p c \<Rightarrow> c | OtherMedia \<Rightarrow> None)"

definition media_hash :: "(nat list \<Rightarrow> string) \<Rightarrow> media option \<Rightarrow> string" where
  "media_hash H m =
     (case m of
        None \<Rightarrow> []
      | Some (Bytes b) \<Rightarrow> take 32 (H b)
      | Some (BytesIO b) \<Rightarrow> take 32 (H b)
      | Some (Path p c) \<Rightarrow> (case c of Some b \<Rightarrow> take 32 (H b) | None \<Rightarrow> [])
      | Some OtherMedia \<Rightarrow> [])"

text \<open>The local \<^verbatim>\<open>base\<close>: \<^verbatim>\<open>f"{t}|{caption[:300]}|{text[:300]}|{media_hash}"\<close>, where
  \<^verbatim>\<open>caption\<close> and \<^verbatim>\<open>text\<close> are the stripped locals.\<close>

definition fingerprint_base :: "post_data \<Rightarrow> string \<Rightarrow> string" where
  "fingerprint_base pd mh =
     (let caption = py_strip (or_empty (pd_caption pd));
          text = py_strip (or_empty (pd_text pd))
      in py_format (pd_type pd) @ ''|'' @ take 300 caption @ ''|'' @ take 300 text @ ''|'' @ mh)"

definition make_post_fingerprint :: "(nat list \<Rightarrow> string) \<Rightarrow> post_data \<Rightarrow> string" where
  "make_post_fingerprint H pd =
     take 32 (H (encode_utf8 (fingerprint_base pd (media_hash H (pd_media pd)))))"

text \<open>
  The fingerprint as the specification words it: the hash of
  \<^verbatim>\<open>"{kind}|{caption[:300]}|{text[:300]}|{media_hash}"\<close> over the candidate's own caption and
  text, the media hash taken over the media bytes if any.
\<close>

definition spec_media_hash :: "(nat list \<Rightarrow> string) \<Rightarrow> media option \<Rightarrow> string" where
  "spec_media_hash H m =
     (case m of None \<Rightarrow> []
      | Some x \<Rightarrow> (case media_bytes x of None \<Rightarrow> [] | Some b \<Rightarrow> take 32 (H b)))"

definition spec_fingerprint :: "(nat list \<Rightarrow> string) \<Rightarrow> post_data \<Rightarrow> string" where
  "spec_fingerprint H pd =
     take 32 (H (encode_utf8 (py_format (pd_type pd) @ ''|'' @ take 300 (or_empty (pd_caption pd))
        @ ''|'' @ take 300 (or_empty (pd_text pd)) @ ''|'' @ spec_media_hash H (pd_media pd))))"

section \<open>Publishing (\<^verbatim>\<open>publish_post_to_channel\<close>)\<close>

text \<open>What reached a channel: a send of a payload through the bot, or a forward
  (target channel, source channel, source message).\<close>

datatype delivery = Published int post_data | Forwarded int int int

text \<open>
  The outcome of \<^verbatim>\<open>publish_post_to_channel\<close>: the bot call returned, the bot call raised
  (logged and raised again), or the payload's type is none of the seven dispatched ones and
  nothing was sent. \<open>send_ok\<close> says whether the bot call for a payload and channel returns.
\<close>

datatype sent = Sent | Raised | NoSend

definition publish_post_to_channel :: "(int \<Rightarrow> post_data \<Rightarrow> bool) \<Rightarrow> post_data \<Rightarrow> int \<Rightarrow> sent" where
  "publish_post_to_channel send_ok pd ch =
     (if pd_type pd \<in> set (map Some [''text'', ''photo'', ''video'', ''document'', ''audio'', ''voice'', ''sticker''])
      then (if send_ok ch pd then Sent else Raised)
      else NoSend)"

section \<open>Random pass (\<^verbatim>\<open>check_random_posts\<close>)\<close>

record config =
  max_posts_per_channel_per_day :: int
  min_seconds_between_posts_per_channel :: int

text \<open>
  Storage calls of the loop body that can raise, each named after the call. A block
  \<^verbatim>\<open>await db.execute(...); await db.commit()\<close> raises at the statement (nothing is
  changed) or at the commit (the statement has changed the connection's view). The
  reservation block has four awaited calls, the caps block two queries and one such block,
  and the stretch after the send five calls.
\<close>

datatype stmt_fault = RaiseExecute | RaiseCommit

datatype reserve_fault = RaiseUpdate | RaiseChanges | RaiseFetchone | RaiseReserveCommit

datatype caps_fault = RaiseCount | RaiseLast | RaiseCapUpdate | RaiseCapCommit

datatype post_fault = RaiseSlotUpdate | RaiseStreamUpdate | RaiseUnionSelect | RaiseTimesUpdate
  | RaiseFinalCommit

text \<open>
  What one attempt on a due row meets outside the store: the clock when the row is looked
  at, when a dedup row is written, when the caps are checked and when the slot is stamped;
  the call that raises, if any, in the reservation block, in a release of the slot (for a
  row without donors and in the \<^verbatim>\<open>except\<close> branch), in the commit of a slot whose tries
  are exhausted, in the caps block, in the stretch after the send, and in the DELETE of the
  \<^verbatim>\<open>except\<close> branch; the result of \<^verbatim>\<open>get_random_post_from_donor\<close> on a randomly chosen
  donor at each of the five tries; the fault, if any, of the dedup reservation for a channel
  and fingerprint; the bot.
\<close>

record slot_env =
  now :: time
  now_dedup :: time
  now_caps :: time
  now_commit :: time
  reserve_raises :: "reserve_fault option"
  release_raises :: "stmt_fault option"
  absorb_raises :: "stmt_fault option"
  caps_raises :: "caps_fault option"
  commit_raises :: "post_fault option"
  delete_raises :: "stmt_fault option"
  fetch :: "nat \<Rightarrow> post_data option"
  dedup_fault :: "int \<Rightarrow> string \<Rightarrow> fault option"
  send_ok :: "int \<Rightarrow> post_data \<Rightarrow> bool"

text \<open>A block of one statement and its commit, under a fault: the view it leaves.\<close>

definition apply_stmt :: "stmt_fault option \<Rightarrow> ('s \<Rightarrow> 's) \<Rightarrow> 's \<Rightarrow> 's" where
  "apply_stmt f upd s = (case f of Some RaiseExecute \<Rightarrow> s | _ \<Rightarrow> upd s)"

text \<open>
  The reservation block: whether the attempt goes on, and the rows. A raise leaves the
  block through \<^verbatim>\<open>except Exception: continue\<close>; behind the UPDATE the row is already
  changed.
\<close>

definition try_reserve :: "reserve_fault option \<Rightarrow> post list \<Rightarrow> int \<Rightarrow> bool \<times> post list" where
  "try_reserve f ps i =
     (case f of
        None \<Rightarrow> (fst (sql_reserve_slot ps i) \<noteq> 0, snd (sql_reserve_slot ps i))
      | Some RaiseUpdate \<Rightarrow> (False, ps)
      | Some _ \<Rightarrow> (False, snd (sql_reserve_slot ps i)))"

text \<open>
  The retry loop over \<^verbatim>\<open>range(max_retries)\<close>: the first candidate whose dedup reservation
  answers \<^verbatim>\<open>True\<close>, the local \<^verbatim>\<open>fingerprint\<close> as the loop leaves it (the last one computed,
  \<^verbatim>\<open>None\<close> when no try fetched a post), and the dedup table the tries leave.
\<close>

fun pick_candidate ::
  "(nat list \<Rightarrow> string) \<Rightarrow> slot_env \<Rightarrow> int \<Rightarrow> nat list \<Rightarrow> string option \<Rightarrow> dedup_row list option
    \<Rightarrow> post_data option \<times> string option \<times> dedup_row list option" where
  "pick_candidate H env ch [] fpv dd = (None, fpv, dd)"
| "pick_candidate H env ch (i # is) fpv dd =
     (case fetch env i of
        None \<Rightarrow> pick_candidate H env ch is fpv dd
      | Some pd \<Rightarrow>
          (let fp = make_post_fingerprint H pd;
               (ok, dd') = reserve_dedup (dedup_fault env ch fp) dd ch fp (now_dedup env)
           in if ok then (Some pd, Some fp, dd') else pick_candidate H env ch is (Some fp) dd'))"

text \<open>The two queries of the caps block on \<^verbatim>\<open>published_dedup\<close>.\<close>

definition published_today_count :: "dedup_row list \<Rightarrow> int \<Rightarrow> time \<Rightarrow> nat" where
  "published_today_count tbl ch t =
     length (filter (\<lambda>r. d_channel r = ch \<and> today_start t \<le> d_published_at r
                          \<and> d_published_at r \<le> day_end t) tbl)"

definition last_published :: "dedup_row list \<Rightarrow> int \<Rightarrow> time option" where
  "last_published tbl ch =
     (case map d_published_at (filter (\<lambda>r. d_channel r = ch) tbl) of
        [] \<Rightarrow> None
      | t # ts \<Rightarrow> Some (fold max ts t))"

text \<open>
  After a publication: the slot is stamped done, the stream's \<^verbatim>\<open>last_post_time\<close> is set and
  its \<^verbatim>\<open>next_post_times_json\<close> becomes the ordered future times of its pending slots.
\<close>

definition union_future_times :: "post list \<Rightarrow> int option \<Rightarrow> time \<Rightarrow> time list" where
  "union_future_times ps sid t =
     sort (concat (map (\<lambda>p. case p_scheduled p of
                              Some s \<Rightarrow> if p_stream p = sid \<and> sid \<noteq> None \<and> p_published p = 0 \<and> t < s
                                        then [s] else []
                            | None \<Rightarrow> []) ps))"

definition stamp_stream :: "random_stream list \<Rightarrow> int option \<Rightarrow> time \<Rightarrow> random_stream list" where
  "stamp_stream ss sid t =
     map (\<lambda>s. if Some (rs_id s) = sid then s\<lparr>rs_last_post_time := Some t\<rparr> else s) ss"

definition set_next_times :: "random_stream list \<Rightarrow> int option \<Rightarrow> time list \<Rightarrow> random_stream list" where
  "set_next_times ss sid ts =
     map (\<lambda>s. if Some (rs_id s) = sid then s\<lparr>rs_next_times := ts\<rparr> else s) ss"

text \<open>
  Where a worker stands in the loop body for its row: before the reservation, holding the
  reserved slot, behind the retry loop with a candidate, behind the caps, behind the send,
  in the \<^verbatim>\<open>except\<close> branch (an exception is in flight), or through with the row. The states
  behind the retry loop carry the local \<^verbatim>\<open>fingerprint\<close>.
\<close>

datatype wstate = Idle | Holding | Picked post_data "string option"
  | Cleared post_data "string option" | Delivered "string option" | Failed "string option" | Done

text \<open>Parse guard and reservation (schu.py 288-316).\<close>

definition stage_reserve :: "slot_env \<Rightarrow> store \<Rightarrow> post \<Rightarrow> wstate \<times> store" where
  "stage_reserve env db row =
     (case p_scheduled row of
        None \<Rightarrow> (Done, db)
      | Some sched \<Rightarrow>
          if sched > now env then (Done, db)
          else
            (let (ok, ps) = try_reserve (reserve_raises env) (posts db) (p_id row)
             in (if ok then Holding else Done, db\<lparr>posts := ps\<rparr>)))"

text \<open>
  Donors and retry loop (schu.py 318-361). A row without donors is released inside its own
  \<^verbatim>\<open>try\<close>. When the tries are exhausted the slot is stamped done; a raise there is not
  caught locally and reaches the \<^verbatim>\<open>except\<close> branch of the row.
\<close>

definition stage_pick :: "(nat list \<Rightarrow> string) \<Rightarrow> slot_env \<Rightarrow> store \<Rightarrow> post \<Rightarrow> wstate \<times> store" where
  "stage_pick H env db row =
     (if p_donors row = [] then
        (Done, db\<lparr>posts := apply_stmt (release_raises env) (\<lambda>ps. sql_release_slot ps (p_id row)) (posts db)\<rparr>)
      else
        (case pick_candidate H env (p_channel row) [0, 1, 2, 3, 4] None (published_dedup db) of
           (None, fpv, dd) \<Rightarrow>
             (case absorb_raises env of
                None \<Rightarrow> (Done, db\<lparr>posts := sql_commit_slot (posts db) (p_id row) (now_commit env),
                                  published_dedup := dd\<rparr>)
              | Some f \<Rightarrow> (Failed fpv,
                    db\<lparr>posts := apply_stmt (Some f) (\<lambda>ps. sql_commit_slot ps (p_id row) (now_commit env)) (posts db),
                       published_dedup := dd\<rparr>))
         | (Some pd, fpv, dd) \<Rightarrow> (Picked pd fpv, db\<lparr>published_dedup := dd\<rparr>)))"

text \<open>
  Safety caps (schu.py 366-398), all inside one \<^verbatim>\<open>try\<close> whose \<^verbatim>\<open>except\<close> passes: a query
  that raises (a missing table, or the fault) or a raise in the block that stamps or
  releases the slot lets the publication go ahead.
\<close>

definition count_query :: "slot_env \<Rightarrow> store \<Rightarrow> int \<Rightarrow> nat option" where
  "count_query env db ch =
     (if caps_raises env = Some RaiseCount then None
      else map_option (\<lambda>tbl. published_today_count tbl ch (now_caps env)) (published_dedup db))"

definition last_query :: "slot_env \<Rightarrow> store \<Rightarrow> int \<Rightarrow> time option option" where
  "last_query env db ch =
     (if caps_raises env = Some RaiseLast then None
      else map_option (\<lambda>tbl. last_published tbl ch) (published_dedup db))"

definition cap_update ::
  "slot_env \<Rightarrow> store \<Rightarrow> post_data \<Rightarrow> string option \<Rightarrow> (post list \<Rightarrow> post list) \<Rightarrow> wstate \<times> store" where
  "cap_update env db pd fpv upd =
     (case caps_raises env of
        Some RaiseCapUpdate \<Rightarrow> (Cleared pd fpv, db)
      | Some RaiseCapCommit \<Rightarrow> (Cleared pd fpv, db\<lparr>posts := upd (posts db)\<rparr>)
      | _ \<Rightarrow> (Done, db\<lparr>posts := upd (posts db)\<rparr>))"

definition check_spacing ::
  "config \<Rightarrow> slot_env \<Rightarrow> store \<Rightarrow> post \<Rightarrow> post_data \<Rightarrow> string option \<Rightarrow> wstate \<times> store" where
  "check_spacing cfg env db row pd fpv =
     (if min_seconds_between_posts_per_channel cfg > 0 then
        (case last_query env db (p_channel row) of
           None \<Rightarrow> (Cleared pd fpv, db)
         | Some None \<Rightarrow> (Cleared pd fpv, db)
         | Some (Some l) \<Rightarrow>
             if now_caps env - l < min_seconds_between_posts_per_channel cfg * us_per_second
             then cap_update env db pd fpv (\<lambda>ps. sql_release_slot ps (p_id row))
             else (Cleared pd fpv, db))
      else (Cleared pd fpv, db))"

definition stage_caps ::
  "config \<Rightarrow> slot_env \<Rightarrow> store \<Rightarrow> post \<Rightarrow> post_data \<Rightarrow> string option \<Rightarrow> wstate \<times> store" where
  "stage_caps cfg env db row pd fpv =
     (if max_posts_per_channel_per_day cfg > 0 then
        (case count_query env db (p_channel row) of
           None \<Rightarrow> (Cleared pd fpv, db)
         | Some n \<Rightarrow>
             if int n \<ge> max_posts_per_channel_per_day cfg
             then cap_update env db pd fpv (\<lambda>ps. sql_commit_slot ps (p_id row) (now_commit env))
             else check_spacing cfg env db row pd fpv)
      else check_spacing cfg env db row pd fpv)"

text \<open>The send (schu.py 401): a raise reaches the \<^verbatim>\<open>except\<close> branch of the row.\<close>

definition stage_send :: "slot_env \<Rightarrow> post \<Rightarrow> post_data \<Rightarrow> string option \<Rightarrow> wstate \<times> delivery list" where
  "stage_send env row pd fpv =
     (case publish_post_to_channel (send_ok env) pd (p_channel row) of
        Raised \<Rightarrow> (Failed fpv, [])
      | Sent \<Rightarrow> (Delivered fpv, [Published (p_channel row) pd])
      | NoSend \<Rightarrow> (Delivered fpv, []))"

text \<open>
  The stretch after the send (schu.py 416-445), in the same \<^verbatim>\<open>try\<close> as the send: a raise
  at one of its calls reaches the \<^verbatim>\<open>except\<close> branch with what the earlier calls changed.
\<close>

definition stage_commit :: "slot_env \<Rightarrow> store \<Rightarrow> post \<Rightarrow> string option \<Rightarrow> wstate \<times> store" where
  "stage_commit env db row fpv =
     (let t = now_commit env;
          db1 = db\<lparr>posts := sql_commit_slot (posts db) (p_id row) t\<rparr>;
          db2 = db1\<lparr>random_posts := stamp_stream (random_posts db1) (p_stream row) t\<rparr>;
          db3 = db2\<lparr>random_posts := set_next_times (random_posts db2) (p_stream row)
                   (union_future_times (posts db2) (p_stream row) t)\<rparr>
      in case commit_raises env of
           None \<Rightarrow> (Done, db3)
         | Some RaiseSlotUpdate \<Rightarrow> (Failed fpv, db)
         | Some RaiseStreamUpdate \<Rightarrow> (Failed fpv, db1)
         | Some RaiseUnionSelect \<Rightarrow> (Failed fpv, db2)
         | Some RaiseTimesUpdate \<Rightarrow> (Failed fpv, db2)
         | Some RaiseFinalCommit \<Rightarrow> (Failed fpv, db3))"

text \<open>
  The \<^verbatim>\<open>except\<close> branch of the row (schu.py 447-467): the release of the slot and the
  DELETE of the dedup row of the local \<^verbatim>\<open>fingerprint\<close>, each in its own \<^verbatim>\<open>try\<close> whose
  \<^verbatim>\<open>except\<close> passes. A missing table makes the DELETE raise.
\<close>

definition stage_rollback :: "slot_env \<Rightarrow> store \<Rightarrow> post \<Rightarrow> string option \<Rightarrow> store" where
  "stage_rollback env db row fpv =
     db\<lparr>posts := apply_stmt (release_raises env) (\<lambda>ps. sql_release_slot ps (p_id row)) (posts db),
        published_dedup :=
          map_option (apply_stmt (delete_raises env)
                        (\<lambda>tbl. case fpv of None \<Rightarrow> tbl | Some fp \<Rightarrow> delete_dedup tbl (p_channel row) fp))
            (published_dedup db)\<rparr>"

text \<open>One stretch of the loop body for a worker: its next state, the store and what was
  delivered.\<close>

definition worker_step ::
  "(nat list \<Rightarrow> string) \<Rightarrow> config \<Rightarrow> slot_env \<Rightarrow> post \<Rightarrow> wstate \<times> store \<Rightarrow> (wstate \<times> store) \<times> delivery list" where
  "worker_step H cfg env row c =
     (case c of (ws, db) \<Rightarrow>
        (case ws of
           Idle \<Rightarrow> (stage_reserve env db row, [])
         | Holding \<Rightarrow> (stage_pick H env db row, [])
         | Picked pd fpv \<Rightarrow> (stage_caps cfg env db row pd fpv, [])
         | Cleared pd fpv \<Rightarrow> (case stage_send env row pd fpv of (ws', l) \<Rightarrow> ((ws', db), l))
         | Delivered fpv \<Rightarrow> (stage_commit env db row fpv, [])
         | Failed fpv \<Rightarrow> ((Done, stage_rollback env db row fpv), [])
         | Done \<Rightarrow> ((Done, db), [])))"

text \<open>
  One iteration of the loop over the due rows: the six stretches in a row, from the row as
  the SELECT returned it and the store as it is now to the store after the iteration and
  what was delivered.
\<close>

fun worker_run ::
  "nat \<Rightarrow> (nat list \<Rightarrow> string) \<Rightarrow> config \<Rightarrow> slot_env \<Rightarrow> post \<Rightarrow> wstate \<times> store \<Rightarrow> delivery list
    \<Rightarrow> (wstate \<times> store) \<times> delivery list" where
  "worker_run 0 H cfg env row c log = (c, log)"
| "worker_run (Suc n) H cfg env row c log =
     (case worker_step H cfg env row c of (c', l) \<Rightarrow> worker_run n H cfg env row c' (log @ l))"

definition random_slot_attempt ::
  "(nat list \<Rightarrow> string) \<Rightarrow> config \<Rightarrow> slot_env \<Rightarrow> store \<Rightarrow> post \<Rightarrow> store \<times> delivery list" where
  "random_slot_attempt H cfg env db row =
     (case worker_run (Suc (Suc (Suc (Suc (Suc (Suc 0)))))) H cfg env row (Idle, db) [] of
        ((ws, db'), log) \<Rightarrow> (db', log))"







section \<open>Example inputs\<close>

text \<open>
  A tenant with one random stream (donor \<^verbatim>\<open>@a\<close>, targets 100 and 200, two posts a day) and
  one pending slot for channel 100 that was due at 12:00; a text candidate; an attempt at
  12:00:05 in which no storage call raises and a bot that accepts every send.
\<close>

definition ex_slot :: post where
  "ex_slot = \<lparr>p_id = 7, p_channel = 100, p_content_type = ''random'', p_content = None,
     p_media_id = None, p_scheduled = Some 43200000000, p_published = 0,
     p_last_post_time = None, p_stream = Some 1, p_donors = [''@a'']\<rparr>"

definition ex_stream :: random_stream where
  "ex_stream = \<lparr>rs_id = 1, rs_donors = [''@a''], rs_targets = [100, 200], rs_posts_per_day = 2,
     rs_active = True, rs_last_post_time = None, rs_next_times = []\<rparr>"

definition ex_store :: store where
  "ex_store = \<lparr>posts = [ex_slot], published_dedup = Some [], random_posts = [ex_stream],
     repost_streams = []\<rparr>"

definition ex_candidate :: post_data where
  "ex_candidate = \<lparr>pd_type = Some ''text'', pd_text = Some ''hello'', pd_media = None,
     pd_caption = None\<rparr>"

definition ex_env :: slot_env where
  "ex_env = \<lparr>now = 43205000000, now_dedup = 43206000000, now_caps = 43206001000,
     now_commit = 43207000000, reserve_raises = None, release_raises = None,
     absorb_raises = None, caps_raises = None, commit_raises = None, delete_raises = None,
     fetch = (\<lambda>_. Some ex_candidate),
     dedup_fault = (\<lambda>_ _. None), send_ok = (\<lambda>_ _. True)\<rparr>"


definition ex_spacing_60 :: config where
  "ex_spacing_60 = \<lparr>max_posts_per_channel_per_day = 0, min_seconds_between_posts_per_channel = 60\<rparr>"



section \<open>Properties of link stripping\<close>




subsection \<open>Characters no match can contain\<close>














subsection \<open>What a match consumes\<close>







subsection \<open>Links and handles between whitespace\<close>



















section \<open>Properties of the slot statements\<close>





lemma pending_rows:
  assumes "distinct (map p_id ps)"
  shows "filter (\<lambda>p. p_id p = i \<and> p_published p = 0) ps =
     (case find (\<lambda>p. p_id p = i) ps of None \<Rightarrow> [] | Some q \<Rightarrow> if p_published q = 0 then [q] else [])"
  using assms
proof (induction ps)
  case Nil
  show ?case by simp
next
  case (Cons a ps)
  show ?case
  proof (cases "p_id a = i")
    case True
    then have "\<forall>p\<in>set ps. p_id p \<noteq> i"
      using Cons.prems by (auto simp: image_iff)
    then have "filter (\<lambda>p. p_id p = i \<and> p_published p = 0) ps = []"
      by (auto simp: filter_empty_conv)
    with True show ?thesis by simp
  next
    case False
    with Cons show ?thesis by simp
  qed
qed

lemma reserve_changes:
  assumes "distinct (map p_id ps)"
  shows "fst (sql_reserve_slot ps i) = (if slot_state ps i = Some 0 then 1 else 0)"
  using pending_rows [OF assms, of i]
  by (auto simp: sql_reserve_slot_def slot_state_def split: option.splits)


lemma map_p_id_reserve [simp]: "map p_id (snd (sql_reserve_slot ps i)) = map p_id ps"
  by (simp add: sql_reserve_slot_def comp_def if_distrib [of p_id] cong: if_cong)

lemma map_p_id_release [simp]: "map p_id (sql_release_slot ps i) = map p_id ps"
  by (simp add: sql_release_slot_def comp_def if_distrib [of p_id] cong: if_cong)

lemma map_p_id_commit [simp]: "map p_id (sql_commit_slot ps i t) = map p_id ps"
  by (simp add: sql_commit_slot_def comp_def if_distrib [of p_id] cong: if_cong)







section \<open>Properties of the stretches of one attempt\<close>


lemma map_p_id_apply_release [simp]:
  "map p_id (apply_stmt f (\<lambda>ps. sql_release_slot ps i) ps) = map p_id ps"
  by (simp add: apply_stmt_def split: option.splits stmt_fault.splits)

lemma map_p_id_apply_commit [simp]:
  "map p_id (apply_stmt f (\<lambda>ps. sql_commit_slot ps i t) ps) = map p_id ps"
  by (simp add: apply_stmt_def split: option.splits stmt_fault.splits)

lemma try_reserve_ids [simp]: "map p_id (snd (try_reserve f ps i)) = map p_id ps"
  by (simp add: try_reserve_def split: option.splits reserve_fault.splits)


lemma try_reserve_pending:
  assumes "distinct (map p_id ps)" "slot_state ps i = Some 0"
  shows "try_reserve None ps i = (True, snd (sql_reserve_slot ps i))"
  using reserve_changes [OF assms(1), of i] assms(2) by (simp add: try_reserve_def)

















section \<open>Two workers on one slot\<close>





subsection \<open>The retry loop without storage faults\<close>




section \<open>One attempt as a whole\<close>

lemma worker_step_Done [simp]: "worker_step H cfg env row (Done, db) = ((Done, db), [])"
  by (simp add: worker_step_def)

lemma worker_run_Done [simp]: "worker_run n H cfg env row (Done, db) log = ((Done, db), log)"
  by (induction n) simp_all











section \<open>Random pass: the claims\<close>




text \<open>
  C2, at a failing input. With \<^verbatim>\<open>MIN_SECONDS_BETWEEN_POSTS_PER_CHANNEL = 60\<close> the example
  attempt reserves the slot, reserves the candidate's fingerprint at 12:00:06, and finds in
  the spacing check a millisecond later that the last \<^verbatim>\<open>published_at\<close> of channel 100 (the
  row it has just written) is less than 60 seconds old. It sets the slot back to pending and
  goes on to the next row: nothing is delivered, and the dedup row of this attempt stays in
  the table. The \<^verbatim>\<open>except\<close> branch of the same loop body deletes that row when the
  publication raises; the spacing branch does not.
\<close>

theorem spacing_cap_keeps_dedup_row:
  "\<forall>H. random_slot_attempt H ex_spacing_60 ex_env ex_store ex_slot =
     (ex_store\<lparr>published_dedup :=
        Some [\<lparr>d_channel = 100, d_fingerprint = make_post_fingerprint H ex_candidate,
               d_published_at = 43206000000\<rparr>]\<rparr>, [])"
  by (simp add: random_slot_attempt_def worker_step_def stage_reserve_def try_reserve_def
      stage_pick_def stage_caps_def check_spacing_def last_query_def cap_update_def
      sql_reserve_slot_def sql_release_slot_def reserve_dedup_def insert_or_ignore_def
      dedup_present_def Let_def last_published_def us_per_second_def
      ex_spacing_60_def ex_env_def ex_store_def ex_slot_def)




section \<open>Fingerprints: the claim\<close>

text \<open>
  C8, as the code has it. The fingerprint is the first 32 characters of the hex digest of
  \<^verbatim>\<open>"{kind}|{caption[:300]}|{text[:300]}|{media_hash}"\<close>, where caption and text are the
  candidate's caption and text with a missing one read as empty and with leading and trailing
  whitespace stripped before the cut to 300 characters, and the media hash is the first 32
  characters of the hex digest of the media bytes when the media carries bytes and empty
  otherwise. It is the fingerprint the specification words, taken on the candidate with
  stripped caption and text. It has at most 32 characters, and as a function of the
  candidate it is the same for the same candidate.
\<close>

theorem make_post_fingerprint_formula:
  "make_post_fingerprint H pd =
     take 32 (H (encode_utf8 (py_format (pd_type pd)
       @ ''|'' @ take 300 (py_strip (or_empty (pd_caption pd)))
       @ ''|'' @ take 300 (py_strip (or_empty (pd_text pd)))
       @ ''|'' @ (case pd_media pd of None \<Rightarrow> []
                 | Some m \<Rightarrow> (case media_bytes m of None \<Rightarrow> [] | Some b \<Rightarrow> take 32 (H b))))))
   \<and> make_post_fingerprint H pd =
     spec_fingerprint H (pd\<lparr>pd_caption := Some (py_strip (or_empty (pd_caption pd))),
                            pd_text := Some (py_strip (or_empty (pd_text pd)))\<rparr>)
   \<and> length (make_post_fingerprint H pd) \<le> 32"
proof -
  have mh: "media_hash H (pd_media pd) = spec_media_hash H (pd_media pd)"
    by (simp add: media_hash_def spec_media_hash_def media_bytes_def
        split: option.splits media.splits)
  show ?thesis
    by (simp add: make_post_fingerprint_def fingerprint_base_def spec_fingerprint_def mh
        spec_media_hash_def or_empty_def)
qed

text \<open>
  C8 as stated fails where a caption or text has whitespace at an end: for the text
  \<^verbatim>\<open>"hello "\<close> the code hashes \<^verbatim>\<open>"text||hello|"\<close>, the stated formula
  \<^verbatim>\<open>"text||hello |"\<close>. With a hash that keeps the length of its input apart the two
  fingerprints differ.
\<close>

theorem make_post_fingerprint_counterexample:
  "\<not> (\<forall>H pd. make_post_fingerprint H pd = spec_fingerprint H pd)"
proof
  assume a: "\<forall>H pd. make_post_fingerprint H pd = spec_fingerprint H pd"
  let ?H = "\<lambda>bs :: nat list. replicate (length bs) CHR ''a''"
  let ?pd = "\<lparr>pd_type = Some ''text'', pd_text = Some ''hello '', pd_media = None, pd_caption = None\<rparr>"
  have base: "fingerprint_base ?pd [] = ''text||hello|''"
    by (simp add: fingerprint_base_def py_strip_def or_empty_def py_format_def is_space_def)
  have l1: "length (make_post_fingerprint ?H ?pd) = 12"
    by (simp add: make_post_fingerprint_def base media_hash_def encode_utf8_def)
  have l2: "length (spec_fingerprint ?H ?pd) = 13"
    by (simp add: spec_fingerprint_def spec_media_hash_def or_empty_def py_format_def encode_utf8_def)
  from a have "make_post_fingerprint ?H ?pd = spec_fingerprint ?H ?pd"
    by blast
  then have "length (make_post_fingerprint ?H ?pd) = length (spec_fingerprint ?H ?pd)"
    by (rule arg_cong)
  then show False
    unfolding l1 l2 by simp
qed

section \<open>Link stripping: the claim\<close>




section \<open>Dedup reservation: the claim\<close>

text \<open>
  C10. The dedup reservation fails open: when the \<^verbatim>\<open>published_dedup\<close> table is missing, or
  when any of the four awaited storage calls inside the reservation raises, the reservation
  answers \<^verbatim>\<open>True\<close> for every channel id and fingerprint, so the publication goes ahead.
\<close>

theorem reserve_dedup_fails_open:
  "fst (reserve_dedup flt None ch fp t) = True \<and>
   fst (reserve_dedup (Some f) dd ch fp t) = True"
  by (cases dd) (auto simp: reserve_dedup_def split: prod.splits)

end
